theory Spec2Isabelle
  imports Main "HOL-Library.AList" "HOL-Library.Multiset"
begin

section \<open>Values, resource records and exceptions\<close>

text \<open>
  Resource records, provider responses and annotations are Python dictionaries holding
  JSON-like values. A dictionary is an association list from field names to values
  (\<open>map_of\<close> reads it, \<open>AList.update\<close> writes it).
\<close>

datatype jv =
    JNull
  | JBool bool
  | JInt int
  | JStr string
  | JList "jv list"
  | JDict "(string \<times> jv) list"

type_synonym jdict = "(string \<times> jv) list"

text \<open>
  Every exception the modelled code can raise is a value. \<open>ClientError code\<close> is the
  provider's typed API error with its machine-readable code; \<open>NameError n\<close> is Python's
  error for reading the unbound global name \<open>n\<close>.
\<close>

datatype error =
    IndexError
  | KeyError string
  | TypeError
  | ValueError
  | AttributeError
  | ZeroDivisionError
  | NameError string
  | ClientError string

definition bnd :: "error + 'a \<Rightarrow> ('a \<Rightarrow> error + 'b) \<Rightarrow> error + 'b" where
  "bnd m f = (case m of Inl e \<Rightarrow> Inl e | Inr x \<Rightarrow> f x)"

text \<open>Python truthiness, as used by \<open>if x\<close> and \<open>not x\<close>.\<close>

fun truthy :: "jv \<Rightarrow> bool" where
  "truthy JNull = False"
| "truthy (JBool b) = b"
| "truthy (JInt n) = (n \<noteq> 0)"
| "truthy (JStr s) = (s \<noteq> [])"
| "truthy (JList xs) = (xs \<noteq> [])"
| "truthy (JDict kvs) = (kvs \<noteq> [])"

text \<open>\<open>d.get(k)\<close>: the value, or \<open>None\<close> when the key is missing.\<close>

definition dget :: "jdict \<Rightarrow> string \<Rightarrow> jv" where
  "dget d k = (case map_of d k of None \<Rightarrow> JNull | Some v \<Rightarrow> v)"

text \<open>\<open>d[k]\<close> on a dictionary: raises \<open>KeyError\<close> when the key is missing.\<close>

definition getitem :: "jdict \<Rightarrow> string \<Rightarrow> error + jv" where
  "getitem d k = (case map_of d k of None \<Rightarrow> Inl (KeyError k) | Some v \<Rightarrow> Inr v)"

text \<open>\<open>x[k]\<close> with a string key on an arbitrary value: only a dictionary accepts it.\<close>

fun jv_item :: "jv \<Rightarrow> string \<Rightarrow> error + jv" where
  "jv_item (JDict d) k = getitem d k"
| "jv_item _ k = Inl TypeError"

text \<open>\<open>x.get(k)\<close> on an arbitrary value: only a dictionary has the method.\<close>

fun jv_get :: "jv \<Rightarrow> string \<Rightarrow> error + jv" where
  "jv_get (JDict d) k = Inr (dget d k)"
| "jv_get _ k = Inl AttributeError"


text \<open>
  \<open>int(x)\<close>. Python's parser of numerals in strings is a built-in, not code of this
  repository; it is the parameter \<open>atoi\<close> (\<open>None\<close> where \<open>int\<close> raises \<open>ValueError\<close>).
\<close>

fun py_int :: "(string \<Rightarrow> int option) \<Rightarrow> jv \<Rightarrow> error + int" where
  "py_int atoi (JInt n) = Inr n"
| "py_int atoi (JBool b) = Inr (if b then 1 else 0)"
| "py_int atoi (JStr s) = (case atoi s of None \<Rightarrow> Inl ValueError | Some n \<Rightarrow> Inr n)"
| "py_int atoi _ = Inl TypeError"


text \<open>A plain decimal reader, used where a concrete \<open>atoi\<close> is needed.\<close>

fun digit_val :: "char \<Rightarrow> nat option" where
  "digit_val c =
     (let n = (of_char c :: nat) in if 48 \<le> n \<and> n \<le> 57 then Some (n - 48) else None)"

fun dec_nat :: "nat \<Rightarrow> string \<Rightarrow> nat option" where
  "dec_nat acc [] = Some acc"
| "dec_nat acc (c # cs) =
     (case digit_val c of None \<Rightarrow> None | Some d \<Rightarrow> dec_nat (10 * acc + d) cs)"

definition dec_int :: "string \<Rightarrow> int option" where
  "dec_int s = (if s = [] then None else map_option int (dec_nat 0 s))"


section \<open>Account filters: eighty-percent attribute thresholds\<close>


text \<open>Lists and dictionaries cannot be dictionary keys.\<close>

fun hashable :: "jv \<Rightarrow> bool" where
  "hashable (JList xs) = False"
| "hashable (JDict d) = False"
| "hashable _ = True"













section \<open>RDS clusters: provider calls, logger and module names\<close>

text \<open>
  The mutating operations of the RDS client, each with its keyword arguments. The
  client either returns (its answer is never read by the actions) or raises; what it
  does may depend on the calls made before, so it is a function of that history.
\<close>

datatype api_call =
    DeleteDBCluster jdict
  | ModifyDBCluster jdict
  | CreateDBClusterSnapshot jdict
  | DeleteDBClusterSnapshot jdict

type_synonym rds_client = "api_call list \<Rightarrow> api_call \<Rightarrow> error option"

text \<open>The lines the actions write to their logger, by the statement that writes them.\<close>

datatype log_line =
    Deleted_cluster jv
  | Retention_exception error
  | Snapshot_exception error
  | Snapshot_set_exception error
  | Deleting_snapshots nat

text \<open>
  The effects of an action: the provider calls in the order they were made, and the
  logged lines (a bag: the order of lines within one \<open>as_completed\<close> wave is not fixed).
\<close>

record world =
  calls :: "api_call list"
  logged :: "log_line multiset"

definition invoke :: "rds_client \<Rightarrow> api_call \<Rightarrow> world \<Rightarrow> error option \<times> world" where
  "invoke client c w = (client (calls w) c, w\<lparr>calls := calls w @ [c]\<rparr>)"

text \<open>
  The global names of module \<open>rdscluster\<close>: what its \<open>import\<close> statements, its
  assignments and its class statements bind. \<open>ClientError\<close> is not imported.
\<close>

definition rdscluster_globals :: "string list" where
  "rdscluster_globals =
     [''logging'', ''as_completed'', ''ActionRegistry'', ''BaseAction'',
      ''FilterRegistry'', ''AgeFilter'', ''OPERATORS'', ''resources'',
      ''QueryResourceManager'', ''type_schema'', ''local_session'',
      ''snapshot_identifier'', ''chunks'', ''log'', ''filters'', ''actions'',
      ''RDSCluster'', ''Delete'', ''RetentionWindow'', ''Snapshot'',
      ''RDSClusterSnapshot'', ''RDSSnapshotAge'', ''RDSClusterSnapshotDelete'']"

definition bound_name :: "string \<Rightarrow> bool" where
  "bound_name n = (n \<in> set rdscluster_globals)"


section \<open>RDS clusters: the delete action\<close>

text \<open>
  The keyword arguments \<open>Delete.process\<close> builds for one cluster. \<open>snapshot_identifier\<close>
  (of \<open>c7n.utils\<close>) names the final snapshot from a prefix and the cluster identifier; it
  is a parameter.
\<close>

definition delete_params :: "(string \<Rightarrow> jv \<Rightarrow> jv) \<Rightarrow> bool \<Rightarrow> jv \<Rightarrow> jdict" where
  "delete_params snapshot_identifier skip cid =
     (if skip
      then [(''DBClusterIdentifier'', cid), (''SkipFinalSnapshot'', JBool True)]
      else [(''DBClusterIdentifier'', cid),
            (''FinalDBSnapshotIdentifier'', snapshot_identifier ''Final'' cid)])"

text \<open>
  The loop of \<open>Delete.process\<close>. When \<open>delete_db_cluster\<close> raises, the interpreter
  evaluates the expression of the clause \<open>except ClientError as e\<close> to match the
  exception against it; an unbound name raises \<open>NameError\<close> there. Otherwise the
  handler swallows the code \<open>InvalidDBClusterStateFault\<close> (\<open>continue\<close>) and re-raises
  every other client error; an exception of another class is not caught.
\<close>

fun Delete_loop ::
  "rds_client \<Rightarrow> (string \<Rightarrow> jv \<Rightarrow> jv) \<Rightarrow> bool \<Rightarrow> jdict list \<Rightarrow> world
     \<Rightarrow> (error + unit) \<times> world" where
  "Delete_loop client snapshot_identifier skip [] w = (Inr (), w)"
| "Delete_loop client snapshot_identifier skip (cluster # rest) w =
     (case getitem cluster ''DBClusterIdentifier'' of
        Inl e \<Rightarrow> (Inl e, w)
      | Inr cid \<Rightarrow>
          (case invoke client (DeleteDBCluster (delete_params snapshot_identifier skip cid)) w of
             (None, w1) \<Rightarrow>
               Delete_loop client snapshot_identifier skip rest
                 (w1\<lparr>logged := add_mset (Deleted_cluster cid) (logged w1)\<rparr>)
           | (Some e, w1) \<Rightarrow>
               if \<not> bound_name ''ClientError'' then (Inl (NameError ''ClientError''), w1)
               else (case e of
                       ClientError code \<Rightarrow>
                         if code \<in> set [''InvalidDBClusterStateFault'']
                         then Delete_loop client snapshot_identifier skip rest w1
                         else (Inl e, w1)
                     | _ \<Rightarrow> (Inl e, w1))))"

text \<open>
  \<open>Delete.process\<close>; \<open>skip_snapshot\<close> is the \<open>skip-snapshot\<close> key of the action's
  configuration, \<open>None\<close> when absent (\<open>self.data.get('skip-snapshot', False)\<close>).
\<close>

definition Delete_process ::
  "rds_client \<Rightarrow> (string \<Rightarrow> jv \<Rightarrow> jv) \<Rightarrow> bool option \<Rightarrow> jdict list \<Rightarrow> world
     \<Rightarrow> (error + unit) \<times> world" where
  "Delete_process client snapshot_identifier skip_snapshot resources w =
     Delete_loop client snapshot_identifier
       (case skip_snapshot of None \<Rightarrow> False | Some b \<Rightarrow> b) resources w"


section \<open>RDS clusters: the retention action, one resource\<close>

text \<open>\<open>RetentionWindow.set_retention_window\<close>.\<close>

definition set_retention_window ::
  "rds_client \<Rightarrow> jdict \<Rightarrow> int \<Rightarrow> world \<Rightarrow> (error + unit) \<times> world" where
  "set_retention_window client resource retention w =
     (case getitem resource ''DBClusterIdentifier'' of
        Inl e \<Rightarrow> (Inl e, w)
      | Inr cid \<Rightarrow>
     (case getitem resource ''PreferredBackupWindow'' of
        Inl e \<Rightarrow> (Inl e, w)
      | Inr backup_window \<Rightarrow>
     (case getitem resource ''PreferredMaintenanceWindow'' of
        Inl e \<Rightarrow> (Inl e, w)
      | Inr maintenance_window \<Rightarrow>
          (case invoke client
                  (ModifyDBCluster
                     [(''DBClusterIdentifier'', cid),
                      (''BackupRetentionPeriod'', JInt retention),
                      (''PreferredBackupWindow'', backup_window),
                      (''PreferredMaintenanceWindow'', maintenance_window)]) w of
             (None, w1) \<Rightarrow> (Inr (), w1)
           | (Some e, w1) \<Rightarrow> (Inl e, w1)))))"

text \<open>
  \<open>RetentionWindow.process_snapshot_retention\<close>. \<open>days\<close> is the \<open>days\<close> key of the
  action's configuration (\<open>self.data['days']\<close> raises \<open>KeyError\<close> when it is absent);
  the schema makes it a number, modelled as an integer. The step returns the resource
  after a modification and \<open>None\<close> otherwise; it never assigns to the resource.
\<close>

definition process_snapshot_retention ::
  "(string \<Rightarrow> int option) \<Rightarrow> rds_client \<Rightarrow> int option \<Rightarrow> jdict \<Rightarrow> world
     \<Rightarrow> (error + jdict option) \<times> world" where
  "process_snapshot_retention atoi client days resource w =
     (case py_int atoi (case map_of resource ''BackupRetentionPeriod'' of
                           None \<Rightarrow> JInt 0 | Some v \<Rightarrow> v) of
        Inl e \<Rightarrow> (Inl e, w)
      | Inr current_retention \<Rightarrow>
     (case days of
        None \<Rightarrow> (Inl (KeyError ''days''), w)
      | Some new_retention \<Rightarrow>
          if current_retention < new_retention
          then (case set_retention_window client resource
                       (max current_retention new_retention) w of
                  (Inl e, w1) \<Rightarrow> (Inl e, w1)
                | (Inr u, w1) \<Rightarrow> (Inr (Some resource), w1))
          else (Inr None, w)))"


section \<open>RDS clusters: the snapshot action, one resource\<close>

text \<open>\<open>Snapshot.process_cluster_snapshot\<close>.\<close>

definition process_cluster_snapshot ::
  "rds_client \<Rightarrow> (string \<Rightarrow> jv \<Rightarrow> jv) \<Rightarrow> jdict \<Rightarrow> world \<Rightarrow> (error + unit) \<times> world" where
  "process_cluster_snapshot client snapshot_identifier resource w =
     (case getitem resource ''DBClusterIdentifier'' of
        Inl e \<Rightarrow> (Inl e, w)
      | Inr cid \<Rightarrow>
          (case invoke client
                  (CreateDBClusterSnapshot
                     [(''DBClusterSnapshotIdentifier'', snapshot_identifier ''Backup'' cid),
                      (''DBClusterIdentifier'', cid)]) w of
             (None, w1) \<Rightarrow> (Inr (), w1)
           | (Some e, w1) \<Rightarrow> (Inl e, w1)))"


section \<open>RDS cluster snapshots: deleting one set\<close>

text \<open>
  \<open>RDSClusterSnapshotDelete.process_snapshot_set\<close>. The subscript
  \<open>s['DBClusterSnapshotIdentifier']\<close> and the provider call are both inside the \<open>try\<close>;
  whatever they raise meets the clause \<open>except ClientError as e\<close>, whose expression is
  evaluated first (\<open>NameError\<close> when unbound) and whose handler is a bare \<open>raise\<close>.
\<close>

definition snapshot_set_except :: "error \<Rightarrow> error" where
  "snapshot_set_except e =
     (if \<not> bound_name ''ClientError'' then NameError ''ClientError'' else e)"

fun process_snapshot_set :: "rds_client \<Rightarrow> jdict list \<Rightarrow> world \<Rightarrow> (error + unit) \<times> world" where
  "process_snapshot_set client [] w = (Inr (), w)"
| "process_snapshot_set client (s # rest) w =
     (case getitem s ''DBClusterSnapshotIdentifier'' of
        Inl e \<Rightarrow> (Inl (snapshot_set_except e), w)
      | Inr sid \<Rightarrow>
          (case invoke client
                  (DeleteDBClusterSnapshot [(''DBClusterSnapshotIdentifier'', sid)]) w of
             (None, w1) \<Rightarrow> process_snapshot_set client rest w1
           | (Some e, w1) \<Rightarrow> (Inl (snapshot_set_except e), w1)))"


section \<open>Actions that fan out over an executor\<close>

text \<open>
  Modelled from the spec: \<open>BaseAction.executor_factory\<close> (module \<open>c7n.actions\<close>) is not
  among the sources. The spec has it build a bounded worker pool in which every
  submitted unit runs independently and has its exception captured individually: the
  future of a unit holds the exception the unit raised, or none.

  In each of the three \<open>process\<close> methods the loop over \<open>as_completed(futures)\<close> stands
  inside the loop that submits: after each \<open>submit\<close> the caller waits until every future
  submitted so far is done, and logs one line for each of them that holds an exception.
  So a unit starts only after all earlier units have finished, and the effects of the
  units follow one another in the order of submission.
\<close>

definition exception_of :: "error + 'a \<Rightarrow> error option" where
  "exception_of res = (case res of Inl e \<Rightarrow> Some e | Inr x \<Rightarrow> None)"

fun raised :: "error option list \<Rightarrow> error list" where
  "raised [] = []"
| "raised (None # fs) = raised fs"
| "raised (Some e # fs) = e # raised fs"

fun submit_each ::
  "('a \<Rightarrow> world \<Rightarrow> (error + 'b) \<times> world) \<Rightarrow> (error \<Rightarrow> log_line) \<Rightarrow> 'a list
     \<Rightarrow> error option list \<Rightarrow> world \<Rightarrow> error option list \<times> world" where
  "submit_each unit line [] futures w = (futures, w)"
| "submit_each unit line (r # rs) futures w =
     (case unit r w of
        (res, w1) \<Rightarrow>
          (let futures1 = futures @ [exception_of res]
           in submit_each unit line rs futures1
                (w1\<lparr>logged := logged w1 + mset (map line (raised futures1))\<rparr>)))"

text \<open>\<open>Snapshot.process\<close>: returns its argument.\<close>

definition Snapshot_process ::
  "rds_client \<Rightarrow> (string \<Rightarrow> jv \<Rightarrow> jv) \<Rightarrow> jdict list \<Rightarrow> world
     \<Rightarrow> (error + jdict list) \<times> world" where
  "Snapshot_process client snapshot_identifier resources w =
     (case submit_each (process_cluster_snapshot client snapshot_identifier)
             Snapshot_exception resources [] w of
        (futures, w1) \<Rightarrow> (Inr resources, w1))"

text \<open>\<open>RetentionWindow.process\<close>: returns \<open>None\<close>.\<close>

definition RetentionWindow_process ::
  "(string \<Rightarrow> int option) \<Rightarrow> rds_client \<Rightarrow> int option \<Rightarrow> jdict list \<Rightarrow> world
     \<Rightarrow> (error + unit) \<times> world" where
  "RetentionWindow_process atoi client days resources w =
     (case submit_each (process_snapshot_retention atoi client days)
             Retention_exception resources [] w of
        (futures, w1) \<Rightarrow> (Inr (), w1))"

text \<open>
  Modelled from the spec: \<open>chunks\<close> (module \<open>c7n.utils\<close>) is not among the sources. The
  spec has it cut its argument into batches of a fixed size, the last batch holding
  the smaller remainder. The spec fixes nothing for size 0; the only call passes 50.
\<close>

fun chunks :: "nat \<Rightarrow> 'a list \<Rightarrow> 'a list list" where
  "chunks n xs =
     (if n = 0 \<or> xs = [] then [] else take n xs # chunks n (drop n xs))"



text \<open>
  The provider requests one unit of the snapshot and of the retention action sends,
  read off the resource alone: they do not depend on what the provider answers.
\<close>

definition snapshot_requests :: "(string \<Rightarrow> jv \<Rightarrow> jv) \<Rightarrow> jdict \<Rightarrow> api_call list" where
  "snapshot_requests snapshot_identifier resource =
     (case map_of resource ''DBClusterIdentifier'' of
        None \<Rightarrow> []
      | Some cid \<Rightarrow>
          [CreateDBClusterSnapshot
             [(''DBClusterSnapshotIdentifier'', snapshot_identifier ''Backup'' cid),
              (''DBClusterIdentifier'', cid)]])"

definition retention_requests ::
  "(string \<Rightarrow> int option) \<Rightarrow> int option \<Rightarrow> jdict \<Rightarrow> api_call list" where
  "retention_requests atoi days resource =
     (case (py_int atoi (case map_of resource ''BackupRetentionPeriod'' of
                            None \<Rightarrow> JInt 0 | Some v \<Rightarrow> v),
            days,
            map_of resource ''DBClusterIdentifier'',
            map_of resource ''PreferredBackupWindow'',
            map_of resource ''PreferredMaintenanceWindow'') of
        (Inr current, Some d, Some cid, Some bw, Some mw) \<Rightarrow>
          if current < d
          then [ModifyDBCluster [(''DBClusterIdentifier'', cid),
                                 (''BackupRetentionPeriod'', JInt d),
                                 (''PreferredBackupWindow'', bw),
                                 (''PreferredMaintenanceWindow'', mw)]]
          else []
      | _ \<Rightarrow> [])"

text \<open>Concrete resources and providers used to run the actions.\<close>

definition cluster :: "string \<Rightarrow> jdict" where
  "cluster name = [(''DBClusterIdentifier'', JStr name)]"

definition snapshot :: "string \<Rightarrow> jdict" where
  "snapshot name = [(''DBClusterSnapshotIdentifier'', JStr name)]"

definition demo_snapshot_identifier :: "string \<Rightarrow> jv \<Rightarrow> jv" where
  "demo_snapshot_identifier prefix cid = JList [JStr prefix, cid]"

definition empty_world :: world where
  "empty_world = \<lparr>calls = [], logged = {#}\<rparr>"

definition gone_client :: rds_client where
  "gone_client history c =
     (if c = DeleteDBCluster [(''DBClusterIdentifier'', JStr ''db-1''),
                              (''SkipFinalSnapshot'', JBool True)]
      then Some (ClientError ''InvalidDBClusterStateFault'') else None)"

definition missing_snapshot_client :: rds_client where
  "missing_snapshot_client history c =
     (if c = DeleteDBClusterSnapshot [(''DBClusterSnapshotIdentifier'', JStr ''snap-1'')]
      then Some (ClientError ''DBClusterSnapshotNotFoundFault'') else None)"

definition aurora :: "string \<Rightarrow> int \<Rightarrow> jdict" where
  "aurora name retention =
     [(''DBClusterIdentifier'', JStr name),
      (''BackupRetentionPeriod'', JInt retention),
      (''PreferredBackupWindow'', JStr ''07:00-07:30''),
      (''PreferredMaintenanceWindow'', JStr ''sun:08:00-sun:08:30'')]"

definition accepting_client :: rds_client where
  "accepting_client history c = None"


definition ten_clusters :: "jdict list" where
  "ten_clusters = map cluster [''db-1'', ''db-2'', ''db-3'', ''db-4'', ''db-5'',
                               ''db-6'', ''db-7'', ''db-8'', ''db-9'', ''db-10'']"

definition flaky_client :: rds_client where
  "flaky_client history c =
     (if c = CreateDBClusterSnapshot
               [(''DBClusterSnapshotIdentifier'', demo_snapshot_identifier ''Backup'' (JStr ''db-4'')),
                (''DBClusterIdentifier'', JStr ''db-4'')]
      then Some (ClientError ''Throttling'') else None)"

definition three_auroras :: "jdict list" where
  "three_auroras = [aurora ''db-1'' 5, cluster ''db-2'', aurora ''db-3'' 1]"




section \<open>Account filters: check-cloudtrail\<close>

text \<open>
  The configuration of the filter, as its schema types it: every key is optional
  (\<open>None\<close> when absent from the policy).
\<close>

record cloudtrail_data =
  ct_multi_region :: "bool option"
  ct_global_events :: "bool option"
  ct_running :: "bool option"
  ct_notifies :: "bool option"
  ct_file_digest :: "bool option"
  ct_kms :: "bool option"
  ct_kms_key :: "string option"

text \<open>
  The CloudTrail client: \<open>describe_trails()['trailList']\<close>, and \<open>get_trail_status\<close> as
  a function of its \<open>Name\<close> argument.
\<close>

record cloudtrail_client =
  describe_trails :: "error + jdict list"
  get_trail_status :: "jv \<Rightarrow> error + jdict"

text \<open>\<open>self.data.get(k)\<close> as a condition, and \<open>self.data.get(k, True)\<close> as a condition.\<close>

definition enabled :: "bool option \<Rightarrow> bool" where
  "enabled flag = (case flag of None \<Rightarrow> False | Some b \<Rightarrow> b)"

definition enabled_by_default :: "bool option \<Rightarrow> bool" where
  "enabled_by_default flag = (case flag of None \<Rightarrow> True | Some b \<Rightarrow> b)"

text \<open>
  The trail dictionaries are shared: the list stored under \<open>cloudtrails\<close> and every
  filtered list hold the same dictionary objects, and the status loop writes into them.
  So the dictionaries live in a store (a list, one cell per trail of the provider's
  answer) and a list of trails is a list of cell numbers. A comprehension keeps the
  cells whose dictionary passes the test.
\<close>

definition select :: "(jdict \<Rightarrow> bool) \<Rightarrow> jdict list \<Rightarrow> nat list \<Rightarrow> nat list" where
  "select p store trails = [t \<leftarrow> trails. p (store ! t)]"

text \<open>The six comprehensions before the status loop, in the order of the source.\<close>

definition static_trails :: "cloudtrail_data \<Rightarrow> jdict list \<Rightarrow> nat list" where
  "static_trails data store =
     (let trails = [0..<length store];
          trails = (if enabled (ct_global_events data)
                    then select (\<lambda>t. truthy (dget t ''IncludeGlobalServiceEvents'')) store trails
                    else trails);
          trails = (if enabled (ct_kms data)
                    then select (\<lambda>t. truthy (dget t ''KmsKeyId'')) store trails
                    else trails);
          trails = (case ct_kms_key data of
                      None \<Rightarrow> trails
                    | Some k \<Rightarrow>
                        if k \<noteq> []
                        then select (\<lambda>t. (case map_of t ''KmsKeyId'' of
                                              None \<Rightarrow> JStr [] | Some v \<Rightarrow> v) = JStr k)
                               store trails
                        else trails);
          trails = (if enabled (ct_file_digest data)
                    then select (\<lambda>t. truthy (dget t ''LogFileValidationEnabled'')) store trails
                    else trails);
          trails = (if enabled (ct_multi_region data)
                    then select (\<lambda>t. truthy (dget t ''IsMultiRegionTrail'')) store trails
                    else trails);
          trails = (if enabled (ct_notifies data)
                    then select (\<lambda>t. truthy (dget t ''SNSTopicArn'')) store trails
                    else trails)
      in trails)"

text \<open>
  The status loop: for each trail, \<open>t['TrailARN']\<close>, the provider call, the write of
  \<open>t['Status']\<close>, then the test \<open>status['IsLogging'] and not
  status.get('LatestDeliveryError')\<close>.
\<close>

fun check_running ::
  "(jv \<Rightarrow> error + jdict) \<Rightarrow> nat list \<Rightarrow> jdict list \<Rightarrow> nat list
     \<Rightarrow> (error + nat list) \<times> jdict list" where
  "check_running status_of [] store running = (Inr running, store)"
| "check_running status_of (t # ts) store running =
     (case getitem (store ! t) ''TrailARN'' of
        Inl e \<Rightarrow> (Inl e, store)
      | Inr arn \<Rightarrow>
     (case status_of arn of
        Inl e \<Rightarrow> (Inl e, store)
      | Inr status \<Rightarrow>
          (let store1 = store[t := AList.update ''Status'' (JDict status) (store ! t)]
           in case getitem status ''IsLogging'' of
                Inl e \<Rightarrow> (Inl e, store1)
              | Inr logging \<Rightarrow>
                  if truthy logging \<and> \<not> truthy (dget status ''LatestDeliveryError'')
                  then check_running status_of ts store1 (running @ [t])
                  else check_running status_of ts store1 running)))"

text \<open>The trails left after every test the configuration asks for, and the store.\<close>

definition CloudTrailEnabled_trails ::
  "cloudtrail_data \<Rightarrow> cloudtrail_client \<Rightarrow> jdict list \<Rightarrow> (error + nat list) \<times> jdict list" where
  "CloudTrailEnabled_trails data client store =
     (if enabled_by_default (ct_running data)
      then check_running (get_trail_status client) (static_trails data store) store []
      else (Inr (static_trails data store), store))"

text \<open>
  \<open>CloudTrailEnabled.process\<close>. The result pairs what \<open>process\<close> returns or raises with
  the content of the caller's list \<open>resources\<close> afterwards. \<open>resources[0]['cloudtrails']\<close>
  is assigned right after the provider's answer, before any test; since it holds the
  trail dictionaries themselves, what the record shows afterwards is the store as the
  status loop left it. Returning \<open>resources\<close> returns that same, annotated list.
\<close>

definition CloudTrailEnabled_process ::
  "cloudtrail_data \<Rightarrow> cloudtrail_client \<Rightarrow> jdict list
     \<Rightarrow> (error + jdict list) \<times> jdict list" where
  "CloudTrailEnabled_process data client resources =
     (case describe_trails client of
        Inl e \<Rightarrow> (Inl e, resources)
      | Inr trail_list \<Rightarrow>
     (case resources of
        [] \<Rightarrow> (Inl IndexError, resources)
      | account # others \<Rightarrow>
          (case CloudTrailEnabled_trails data client trail_list of
             (outcome, store) \<Rightarrow>
               (let resources1 =
                      AList.update ''cloudtrails'' (JList (map JDict store)) account # others
                in case outcome of
                     Inl e \<Rightarrow> (Inl e, resources1)
                   | Inr trails \<Rightarrow>
                       if trails \<noteq> [] then (Inr [], resources1)
                       else (Inr resources1, resources1)))))"

text \<open>
  What the tests mean for one trail dictionary, written as one conjunction: the tests
  on the trail's own fields, and the health of its status.
\<close>

definition flag_test :: "bool \<Rightarrow> bool \<Rightarrow> bool" where
  "flag_test on holds = (if on then holds else True)"

definition trail_passes :: "cloudtrail_data \<Rightarrow> jdict \<Rightarrow> bool" where
  "trail_passes data t =
     (flag_test (enabled (ct_global_events data)) (truthy (dget t ''IncludeGlobalServiceEvents''))
      \<and> flag_test (enabled (ct_kms data)) (truthy (dget t ''KmsKeyId''))
      \<and> (case ct_kms_key data of
            None \<Rightarrow> True
          | Some k \<Rightarrow>
              flag_test (k \<noteq> [])
                ((case map_of t ''KmsKeyId'' of None \<Rightarrow> JStr [] | Some v \<Rightarrow> v) = JStr k))
      \<and> flag_test (enabled (ct_file_digest data)) (truthy (dget t ''LogFileValidationEnabled''))
      \<and> flag_test (enabled (ct_multi_region data)) (truthy (dget t ''IsMultiRegionTrail''))
      \<and> flag_test (enabled (ct_notifies data)) (truthy (dget t ''SNSTopicArn'')))"

definition trail_status :: "cloudtrail_client \<Rightarrow> jdict \<Rightarrow> error + jdict" where
  "trail_status client t = bnd (getitem t ''TrailARN'') (get_trail_status client)"

definition status_readable :: "cloudtrail_client \<Rightarrow> jdict \<Rightarrow> bool" where
  "status_readable client t =
     (case trail_status client t of
        Inl e \<Rightarrow> False
      | Inr status \<Rightarrow> map_of status ''IsLogging'' \<noteq> None)"

definition trail_healthy :: "cloudtrail_client \<Rightarrow> jdict \<Rightarrow> bool" where
  "trail_healthy client t =
     (case trail_status client t of
        Inl e \<Rightarrow> False
      | Inr status \<Rightarrow>
          truthy (dget status ''IsLogging'') \<and> \<not> truthy (dget status ''LatestDeliveryError''))"

definition with_status :: "cloudtrail_client \<Rightarrow> jdict \<Rightarrow> jdict" where
  "with_status client t =
     (case trail_status client t of
        Inl e \<Rightarrow> t
      | Inr status \<Rightarrow> AList.update ''Status'' (JDict status) t)"

text \<open>
  A trail survives when it passes the tests on its fields and, where the status is
  checked, is healthy.
\<close>

definition trail_survives :: "cloudtrail_data \<Rightarrow> cloudtrail_client \<Rightarrow> jdict \<Rightarrow> bool" where
  "trail_survives data client t =
     (trail_passes data t
      \<and> flag_test (enabled_by_default (ct_running data)) (trail_healthy client t))"


text \<open>
  The provider can be asked for the status of every trail the status loop visits:
  the trail has its \<open>TrailARN\<close>, the call returns, and the answer has \<open>IsLogging\<close>.
\<close>

definition statuses_readable ::
  "cloudtrail_data \<Rightarrow> cloudtrail_client \<Rightarrow> jdict list \<Rightarrow> bool" where
  "statuses_readable data client trail_list =
     list_all (\<lambda>t. flag_test (enabled_by_default (ct_running data) \<and> trail_passes data t)
                     (status_readable client t)) trail_list"

text \<open>The trail dictionaries as the status loop leaves them.\<close>

definition trails_after ::
  "cloudtrail_data \<Rightarrow> cloudtrail_client \<Rightarrow> jdict list \<Rightarrow> jdict list" where
  "trails_after data client trail_list =
     map (\<lambda>t. if enabled_by_default (ct_running data) \<and> trail_passes data t
               then with_status client t else t) trail_list"


section \<open>Account filters: check-config\<close>

record config_data =
  cfg_all_resources :: "bool option"
  cfg_running :: "bool option"
  cfg_global_resources :: "bool option"

text \<open>
  The Config client: the item lists \<open>DeliveryChannels\<close>, \<open>ConfigurationRecorders\<close> and
  \<open>ConfigurationRecordersStatus\<close> of its three answers.
\<close>

record config_client =
  describe_delivery_channels :: "error + jdict list"
  describe_configuration_recorders :: "error + jdict list"
  describe_configuration_recorder_status :: "error + jdict list"

text \<open>A comprehension whose test may raise: the first exception ends it.\<close>

fun filter_err :: "('a \<Rightarrow> error + bool) \<Rightarrow> 'a list \<Rightarrow> error + 'a list" where
  "filter_err p [] = Inr []"
| "filter_err p (x # xs) =
     bnd (p x) (\<lambda>b. bnd (filter_err p xs) (\<lambda>ys. Inr (if b then x # ys else ys)))"

text \<open>\<open>r['recordingGroup'].get(key)\<close> as a condition.\<close>

definition recording_group_flag :: "string \<Rightarrow> jdict \<Rightarrow> error + bool" where
  "recording_group_flag key r =
     bnd (getitem r ''recordingGroup'') (\<lambda>g. bnd (jv_get g key) (\<lambda>v. Inr (truthy v)))"

text \<open>
  \<open>{s['name']: s for s in ...}\<close>. Recorder names are strings in the provider's answer;
  the dictionary is kept as a record value, so a name of another type is outside the
  model (\<open>TypeError\<close>).
\<close>

fun status_by_name :: "jdict \<Rightarrow> jdict list \<Rightarrow> error + jdict" where
  "status_by_name m [] = Inr m"
| "status_by_name m (s # ss) =
     (case getitem s ''name'' of
        Inl e \<Rightarrow> Inl e
      | Inr (JStr n) \<Rightarrow> status_by_name (AList.update n (JDict s) m) ss
      | Inr _ \<Rightarrow> Inl TypeError)"

text \<open>\<open>str.lower\<close> on the letters A to Z.\<close>

definition lower_char :: "char \<Rightarrow> char" where
  "lower_char c =
     (let n = (of_char c :: nat) in if 65 \<le> n \<and> n \<le> 90 then char_of (n + 32) else c)"

text \<open>
  The test of the last comprehension: \<open>status[r['name']]['recording'] and
  status[r['name']]['lastStatus'].lower() in ('pending', 'success')\<close>.
\<close>

definition recorder_running :: "jdict \<Rightarrow> jdict \<Rightarrow> error + bool" where
  "recorder_running status r =
     bnd (getitem r ''name'') (\<lambda>n.
       case n of
         JStr name \<Rightarrow>
           bnd (getitem status name) (\<lambda>st.
           bnd (jv_item st ''recording'') (\<lambda>recording.
             if \<not> truthy recording then Inr False
             else bnd (jv_item st ''lastStatus'') (\<lambda>last_status.
                    case last_status of
                      JStr s \<Rightarrow> Inr (map lower_char s \<in> set [''pending'', ''success''])
                    | _ \<Rightarrow> Inl AttributeError)))
       | _ \<Rightarrow> if hashable n then Inl (KeyError []) else Inl TypeError)"

text \<open>
  The recorders left after every test the configuration asks for, and the account
  record (the status step annotates it with \<open>config_status\<close>).
\<close>

definition ConfigEnabled_recorders ::
  "config_data \<Rightarrow> config_client \<Rightarrow> jdict list \<Rightarrow> jdict \<Rightarrow> (error + jdict list) \<times> jdict" where
  "ConfigEnabled_recorders data client recorders account =
     (case (if enabled (cfg_global_resources data)
            then filter_err (recording_group_flag ''includeGlobalResources'') recorders
            else Inr recorders) of
        Inl e \<Rightarrow> (Inl e, account)
      | Inr recorders1 \<Rightarrow>
     (case (if enabled (cfg_all_resources data)
            then filter_err (recording_group_flag ''allSupported'') recorders1
            else Inr recorders1) of
        Inl e \<Rightarrow> (Inl e, account)
      | Inr recorders2 \<Rightarrow>
          if enabled_by_default (cfg_running data) \<and> recorders2 \<noteq> []
          then (case describe_configuration_recorder_status client of
                  Inl e \<Rightarrow> (Inl e, account)
                | Inr statuses \<Rightarrow>
                    (case status_by_name [] statuses of
                       Inl e \<Rightarrow> (Inl e, account)
                     | Inr status \<Rightarrow>
                         (filter_err (recorder_running status) recorders2,
                          AList.update ''config_status'' (JDict status) account)))
          else (Inr recorders2, account)))"

text \<open>
  \<open>ConfigEnabled.process\<close>: what it returns or raises, and the content of the
  caller's list \<open>resources\<close> afterwards.
\<close>

definition ConfigEnabled_process ::
  "config_data \<Rightarrow> config_client \<Rightarrow> jdict list \<Rightarrow> (error + jdict list) \<times> jdict list" where
  "ConfigEnabled_process data client resources =
     (case describe_delivery_channels client of
        Inl e \<Rightarrow> (Inl e, resources)
      | Inr channels \<Rightarrow>
     (case describe_configuration_recorders client of
        Inl e \<Rightarrow> (Inl e, resources)
      | Inr recorders \<Rightarrow>
     (case resources of
        [] \<Rightarrow> (Inl IndexError, resources)
      | account # others \<Rightarrow>
          (case ConfigEnabled_recorders data client recorders
                  (AList.update ''config_channels'' (JList (map JDict channels))
                     (AList.update ''config_recorders'' (JList (map JDict recorders)) account)) of
             (outcome, account1) \<Rightarrow>
               (case outcome of
                  Inl e \<Rightarrow> (Inl e, account1 # others)
                | Inr survivors \<Rightarrow>
                    if channels \<noteq> [] \<and> survivors \<noteq> [] then (Inr [], account1 # others)
                    else (Inr (account1 # others), account1 # others))))))"


section \<open>Account filters: iam-summary and password-policy\<close>

text \<open>
  The IAM client. Its answers may change from one call to the next, so each operation
  is a function of the number of IAM calls made before: \<open>get_account_summary\<close> gives
  the \<open>SummaryMap\<close> of the answer, \<open>get_account_password_policy\<close> the answer itself.
\<close>

record iam_client =
  get_account_summary :: "nat \<Rightarrow> error + jdict"
  get_account_password_policy :: "nat \<Rightarrow> error + jdict"

text \<open>
  Modelled from the spec: \<open>ValueFilter.match\<close> (module \<open>c7n.filters\<close>) is not among the
  sources. The spec has it a deterministic test of the record it is given; it is the
  parameter \<open>match\<close>, which returns a boolean or raises.

  The end of both \<open>process\<close> methods: \<open>if self.match(resources[0][key]): return
  resources\<close>, then \<open>return []\<close>. The state is the content of \<open>resources\<close> and the number
  of IAM calls made.
\<close>

definition match_first ::
  "(jv \<Rightarrow> error + bool) \<Rightarrow> string \<Rightarrow> jdict list \<Rightarrow> nat
     \<Rightarrow> (error + jdict list) \<times> jdict list \<times> nat" where
  "match_first match key resources n =
     (case resources of
        [] \<Rightarrow> (Inl IndexError, resources, n)
      | account # others \<Rightarrow>
          (case getitem account key of
             Inl e \<Rightarrow> (Inl e, resources, n)
           | Inr v \<Rightarrow>
               (case match v of
                  Inl e \<Rightarrow> (Inl e, resources, n)
                | Inr b \<Rightarrow> (Inr (if b then resources else []), resources, n))))"

text \<open>\<open>IAMSummary.process\<close>.\<close>

definition IAMSummary_process ::
  "(jv \<Rightarrow> error + bool) \<Rightarrow> iam_client \<Rightarrow> jdict list \<Rightarrow> nat
     \<Rightarrow> (error + jdict list) \<times> jdict list \<times> nat" where
  "IAMSummary_process match client resources n =
     (case resources of
        [] \<Rightarrow> (Inl IndexError, resources, n)
      | account # others \<Rightarrow>
          if \<not> truthy (dget account ''iam_summary'')
          then (case get_account_summary client n of
                  Inl e \<Rightarrow> (Inl e, resources, Suc n)
                | Inr summary \<Rightarrow>
                    match_first match ''iam_summary''
                      (AList.update ''iam_summary'' (JDict summary) account # others) (Suc n))
          else match_first match ''iam_summary'' resources n)"

text \<open>\<open>AccountPasswordPolicy.process\<close>.\<close>

definition AccountPasswordPolicy_process ::
  "(jv \<Rightarrow> error + bool) \<Rightarrow> iam_client \<Rightarrow> jdict list \<Rightarrow> nat
     \<Rightarrow> (error + jdict list) \<times> jdict list \<times> nat" where
  "AccountPasswordPolicy_process match client resources n =
     (case resources of
        [] \<Rightarrow> (Inl IndexError, resources, n)
      | account # others \<Rightarrow>
          if \<not> truthy (dget account ''password_policy'')
          then (case get_account_password_policy client n of
                  Inl e \<Rightarrow> (Inl e, resources, Suc n)
                | Inr answer \<Rightarrow>
                    match_first match ''password_policy''
                      (AList.update ''password_policy''
                         (case map_of answer ''PasswordPolicy'' of
                            None \<Rightarrow> JDict [] | Some policy \<Rightarrow> policy)
                         account # others) (Suc n))
          else match_first match ''password_policy'' resources n)"


text \<open>Concrete accounts, configurations and providers used to run the account filters.\<close>

definition demo_account :: jdict where
  "demo_account = [(''account_id'', JStr ''123456789012''), (''account_name'', JStr ''dev'')]"

definition ct_defaults :: cloudtrail_data where
  "ct_defaults =
     \<lparr> ct_multi_region = None, ct_global_events = None, ct_running = None,
       ct_notifies = None, ct_file_digest = None, ct_kms = None, ct_kms_key = None \<rparr>"

definition cfg_defaults :: config_data where
  "cfg_defaults = \<lparr> cfg_all_resources = None, cfg_running = None, cfg_global_resources = None \<rparr>"

definition trail :: "string \<Rightarrow> jdict" where
  "trail arn = [(''TrailARN'', JStr arn), (''IsMultiRegionTrail'', JBool True)]"

definition trail_client :: "string list \<Rightarrow> cloudtrail_client" where
  "trail_client arns =
     \<lparr> describe_trails = Inr (map trail arns),
       get_trail_status =
         (\<lambda>name. if name = JStr ''arn:logging'' then Inr [(''IsLogging'', JBool True)]
                  else if name = JStr ''arn:idle'' then Inr [(''IsLogging'', JBool False)]
                  else Inl (ClientError ''TrailNotFoundException'')) \<rparr>"

definition recorder_client :: config_client where
  "recorder_client =
     \<lparr> describe_delivery_channels = Inr [[(''name'', JStr ''default'')]],
       describe_configuration_recorders =
         Inr [[(''name'', JStr ''default''),
               (''recordingGroup'', JDict [(''allSupported'', JBool True)])]],
       describe_configuration_recorder_status =
         Inr [[(''name'', JStr ''default''), (''recording'', JBool False),
               (''lastStatus'', JStr ''SUCCESS'')]] \<rparr>"

definition mfa_enabled :: "jv \<Rightarrow> error + bool" where
  "mfa_enabled v = bnd (jv_get v ''AccountMFAEnabled'') (\<lambda>x. Inr (x = JInt 1))"

definition summary_client :: iam_client where
  "summary_client =
     \<lparr> get_account_summary = (\<lambda>n. Inr [(''AccountMFAEnabled'', JInt (int n))]),
       get_account_password_policy =
         (\<lambda>n. Inr [(''PasswordPolicy'', JDict [(''AccountMFAEnabled'', JInt (int n))])]) \<rparr>"


section \<open>Properties of the attribute-threshold filters\<close>

lemma bnd_Inr [simp]: "bnd (Inr x) f = f x"
  by (simp add: bnd_def)

lemma bnd_Inl [simp]: "bnd (Inl e) f = Inl e"
  by (simp add: bnd_def)










section \<open>Properties of the retention step\<close>

text \<open>
  Claim C1. The per-resource step of the retention action only raises the
  retention. With the current \<open>BackupRetentionPeriod\<close> (0 when the key is missing) at
  least the configured \<open>days\<close>, the step makes no provider call, returns \<open>None\<close> and
  leaves the effects as they were. With it strictly less, on a resource that has its
  identifier and both windows, the step makes exactly one \<open>modify_db_cluster\<close> call,
  with \<open>BackupRetentionPeriod\<close> equal to \<open>days\<close> and both windows passed through as
  the resource has them; it returns the resource, or raises what the provider raised.
\<close>

theorem retention_step_monotonic:
  assumes cur: "py_int atoi (case map_of resource ''BackupRetentionPeriod'' of
                               None \<Rightarrow> JInt 0 | Some v \<Rightarrow> v) = Inr current"
    and days: "days = Some d"
  shows "(d \<le> current \<longrightarrow>
            process_snapshot_retention atoi client days resource w = (Inr None, w))
       \<and> (current < d
            \<and> getitem resource ''DBClusterIdentifier'' = Inr cid
            \<and> getitem resource ''PreferredBackupWindow'' = Inr bw
            \<and> getitem resource ''PreferredMaintenanceWindow'' = Inr mw \<longrightarrow>
            process_snapshot_retention atoi client days resource w
              = (case client (calls w)
                        (ModifyDBCluster [(''DBClusterIdentifier'', cid),
                                          (''BackupRetentionPeriod'', JInt d),
                                          (''PreferredBackupWindow'', bw),
                                          (''PreferredMaintenanceWindow'', mw)]) of
                   None \<Rightarrow> Inr (Some resource) | Some e \<Rightarrow> Inl e,
                 w\<lparr>calls := calls w @
                        [ModifyDBCluster [(''DBClusterIdentifier'', cid),
                                          (''BackupRetentionPeriod'', JInt d),
                                          (''PreferredBackupWindow'', bw),
                                          (''PreferredMaintenanceWindow'', mw)]]\<rparr>))"
  using cur days
  by (auto simp: process_snapshot_retention_def set_retention_window_def invoke_def
      split: option.splits)

lemma aurora_fields:
  "py_int atoi (case map_of (aurora name n) ''BackupRetentionPeriod'' of
                  None \<Rightarrow> JInt 0 | Some v \<Rightarrow> v) = Inr n"
  "getitem (aurora name n) ''DBClusterIdentifier'' = Inr (JStr name)"
  "getitem (aurora name n) ''PreferredBackupWindow'' = Inr (JStr ''07:00-07:30'')"
  "getitem (aurora name n) ''PreferredMaintenanceWindow'' = Inr (JStr ''sun:08:00-sun:08:30'')"
  by (simp_all add: aurora_def getitem_def)

theorem retention_step_monotonic_witness:
  "process_snapshot_retention dec_int accepting_client (Some 5) (aurora ''db-1'' 7) empty_world
     = (Inr None, empty_world)
   \<and> process_snapshot_retention dec_int accepting_client (Some 7) (aurora ''db-1'' 5) empty_world
     = (Inr (Some (aurora ''db-1'' 5)),
        \<lparr>calls = [ModifyDBCluster [(''DBClusterIdentifier'', JStr ''db-1''),
                                    (''BackupRetentionPeriod'', JInt 7),
                                    (''PreferredBackupWindow'', JStr ''07:00-07:30''),
                                    (''PreferredMaintenanceWindow'', JStr ''sun:08:00-sun:08:30'')]],
         logged = {#}\<rparr>)"
  using retention_step_monotonic [where atoi = dec_int and resource = "aurora ''db-1'' 7"
      and current = 7 and days = "Some 5" and d = 5 and client = accepting_client
      and w = empty_world, OF aurora_fields(1) refl]
    retention_step_monotonic [where atoi = dec_int and resource = "aurora ''db-1'' 5"
      and current = 5 and days = "Some 7" and d = 7 and client = accepting_client
      and w = empty_world and cid = "JStr ''db-1''" and bw = "JStr ''07:00-07:30''"
      and mw = "JStr ''sun:08:00-sun:08:30''", OF aurora_fields(1) refl]
  by (simp add: aurora_fields accepting_client_def empty_world_def)

section \<open>Properties of the delete actions\<close>

lemma ClientError_unbound: "\<not> bound_name ''ClientError''"
  by (simp add: bound_name_def rdscluster_globals_def)

text \<open>
  Claim C5. The delete action is meant to swallow the provider's
  \<open>InvalidDBClusterStateFault\<close> and go on with the remaining clusters. Run on two
  clusters with a provider that answers the first deletion with that fault, the code
  raises \<open>NameError\<close> for the name \<open>ClientError\<close>, which the module never imports, and
  the second cluster is never deleted.
\<close>

theorem delete_swallow_raises_NameError:
  "Delete_process gone_client demo_snapshot_identifier (Some True)
      [cluster ''db-1'', cluster ''db-2''] empty_world
   = (Inl (NameError ''ClientError''),
      \<lparr>calls = [DeleteDBCluster [(''DBClusterIdentifier'', JStr ''db-1''),
                                  (''SkipFinalSnapshot'', JBool True)]],
       logged = {#}\<rparr>)"
  by (simp add: Delete_process_def cluster_def getitem_def invoke_def delete_params_def
      gone_client_def empty_world_def ClientError_unbound)

text \<open>
  Claim C10. The per-resource step of the retention action only raises the
  retention. With the current \<open>BackupRetentionPeriod\<close> (0 when the key is missing) at
  least the configured \<open>days\<close>, the step makes no provider call, returns \<open>None\<close> and
  leaves the effects as they were. With it strictly less, on a resource that has its
  identifier and both windows, the step makes exactly one \<open>modify_db_cluster\<close> call,
  with \<open>BackupRetentionPeriod\<close> equal to \<open>days\<close> and both windows passed through as
  the resource has them; it returns the resource, or raises what the provider raised.0
\<close>

theorem snapshot_set_raises_NameError:
  "process_snapshot_set missing_snapshot_client [snapshot ''snap-1'', snapshot ''snap-2'']
      empty_world
   = (Inl (NameError ''ClientError''),
      \<lparr>calls = [DeleteDBClusterSnapshot [(''DBClusterSnapshotIdentifier'', JStr ''snap-1'')]],
       logged = {#}\<rparr>)"
  by (simp add: snapshot_def getitem_def invoke_def missing_snapshot_client_def
      empty_world_def snapshot_set_except_def ClientError_unbound)

section \<open>Properties of the executor loop\<close>

lemma raised_append [simp]: "raised (fs @ gs) = raised fs @ raised gs"
  by (induction fs rule: raised.induct) simp_all

lemma raised_set: "e \<in> set (raised fs) \<longleftrightarrow> Some e \<in> set fs"
  by (induction fs rule: raised.induct) auto

lemma submit_each_length:
  "length (fst (submit_each unit line rs fs w)) = length fs + length rs"
  by (induction rs arbitrary: fs w) (simp_all add: Let_def split: prod.splits)

lemma submit_each_calls:
  assumes "\<And>r w. r \<in> set rs \<Longrightarrow> calls (snd (unit r w)) = calls w @ reqs r"
  shows "calls (snd (submit_each unit line rs fs w)) = calls w @ concat (map reqs rs)"
  using assms
proof (induction rs arbitrary: fs w)
  case Nil
  show ?case by simp
next
  case (Cons r rs)
  obtain res w1 where u: "unit r w = (res, w1)" by (cases "unit r w")
  have c1: "calls w1 = calls w @ reqs r" using Cons.prems [of r w] u by simp
  have "calls (snd (submit_each unit line rs fs' w')) = calls w' @ concat (map reqs rs)"
    for fs' w' using Cons.prems by (intro Cons.IH) simp
  then show ?case using c1 by (simp add: u Let_def)
qed

lemma submit_each_logged_mono:
  assumes "\<And>r w. logged (snd (unit r w)) = logged w"
  shows "logged w \<subseteq># logged (snd (submit_each unit line rs fs w))"
proof (induction rs arbitrary: fs w)
  case Nil
  show ?case by simp
next
  case (Cons r rs)
  obtain res w1 where u: "unit r w = (res, w1)" by (cases "unit r w")
  have l1: "logged w1 = logged w" using assms [of r w] u by simp
  let ?w2 = "w1\<lparr>logged := logged w1 + mset (map line (raised (fs @ [exception_of res])))\<rparr>"
  have "logged w \<subseteq># logged ?w2" by (simp add: l1)
  also have "\<dots> \<subseteq># logged (snd (submit_each unit line rs (fs @ [exception_of res]) ?w2))"
    by (rule Cons.IH)
  finally show ?case by (simp add: u Let_def)
qed

lemma submit_each_captured:
  assumes "\<And>r w. logged (snd (unit r w)) = logged w"
    and "Some e \<in> set (fst (submit_each unit line rs fs w))"
  shows "Some e \<in> set fs \<and> rs = [] \<or> line e \<in># logged (snd (submit_each unit line rs fs w))"
  using assms(2)
proof (induction rs arbitrary: fs w)
  case Nil
  then show ?case by simp
next
  case (Cons r rs)
  obtain res w1 where u: "unit r w = (res, w1)" by (cases "unit r w")
  let ?fs1 = "fs @ [exception_of res]"
  let ?w2 = "w1\<lparr>logged := logged w1 + mset (map line (raised ?fs1))\<rparr>"
  have step: "submit_each unit line (r # rs) fs w = submit_each unit line rs ?fs1 ?w2"
    by (simp add: u Let_def)
  from Cons.prems have mem: "Some e \<in> set (fst (submit_each unit line rs ?fs1 ?w2))"
    unfolding step .
  from Cons.IH [OF mem]
  have "Some e \<in> set ?fs1 \<or> line e \<in># logged (snd (submit_each unit line rs ?fs1 ?w2))"
    by blast
  moreover have "line e \<in># logged (snd (submit_each unit line rs ?fs1 ?w2))"
    if "Some e \<in> set ?fs1"
  proof -
    have "e \<in> set (raised ?fs1)" using that by (simp only: raised_set)
    then have "line e \<in># logged ?w2" by auto
    then show ?thesis
      by (rule mset_subset_eqD [OF submit_each_logged_mono [OF assms(1)]])
  qed
  ultimately show ?case unfolding step by blast
qed

lemma snapshot_unit_calls:
  "calls (snd (process_cluster_snapshot client sid r w)) = calls w @ snapshot_requests sid r"
  by (simp add: process_cluster_snapshot_def snapshot_requests_def getitem_def invoke_def
      split: option.splits)

lemma snapshot_unit_logged:
  "logged (snd (process_cluster_snapshot client sid r w)) = logged w"
  by (simp add: process_cluster_snapshot_def getitem_def invoke_def split: option.splits)

lemma retention_unit_calls:
  "calls (snd (process_snapshot_retention atoi client days r w))
     = calls w @ retention_requests atoi days r"
  by (simp add: process_snapshot_retention_def set_retention_window_def retention_requests_def
      getitem_def invoke_def split: option.splits sum.splits)

lemma retention_unit_logged:
  "logged (snd (process_snapshot_retention atoi client days r w)) = logged w"
  by (simp add: process_snapshot_retention_def set_retention_window_def
      getitem_def invoke_def split: option.splits sum.splits)

text \<open>
  Claim C8. The snapshot and the retention action tolerate failing units. For
  every list of resources and every provider, \<open>process\<close> does not raise; one future is
  made per resource; the provider receives the requests of every resource, in order,
  whichever units raise (no unit after a failing one is skipped); and the exception
  held by any future is logged.
\<close>

theorem fan_out_tolerates_failures:
  "fst (Snapshot_process client sid resources w) = Inr resources
   \<and> calls (snd (Snapshot_process client sid resources w))
       = calls w @ concat (map (snapshot_requests sid) resources)
   \<and> length (fst (submit_each (process_cluster_snapshot client sid)
                     Snapshot_exception resources [] w)) = length resources
   \<and> (\<forall>e. Some e \<in> set (fst (submit_each (process_cluster_snapshot client sid)
                                  Snapshot_exception resources [] w)) \<longrightarrow>
          Snapshot_exception e \<in># logged (snd (Snapshot_process client sid resources w)))
   \<and> fst (RetentionWindow_process atoi client days resources w) = Inr ()
   \<and> calls (snd (RetentionWindow_process atoi client days resources w))
       = calls w @ concat (map (retention_requests atoi days) resources)
   \<and> length (fst (submit_each (process_snapshot_retention atoi client days)
                     Retention_exception resources [] w)) = length resources
   \<and> (\<forall>e. Some e \<in> set (fst (submit_each (process_snapshot_retention atoi client days)
                                  Retention_exception resources [] w)) \<longrightarrow>
          Retention_exception e
            \<in># logged (snd (RetentionWindow_process atoi client days resources w)))"
proof -
  let ?S = "submit_each (process_cluster_snapshot client sid) Snapshot_exception resources [] w"
  let ?R = "submit_each (process_snapshot_retention atoi client days)
              Retention_exception resources [] w"
  have s: "Snapshot_process client sid resources w = (Inr resources, snd ?S)"
    by (simp add: Snapshot_process_def split: prod.splits)
  have r: "RetentionWindow_process atoi client days resources w = (Inr (), snd ?R)"
    by (simp add: RetentionWindow_process_def split: prod.splits)
  have sc: "calls (snd ?S) = calls w @ concat (map (snapshot_requests sid) resources)"
    by (rule submit_each_calls) (rule snapshot_unit_calls)
  have rc: "calls (snd ?R) = calls w @ concat (map (retention_requests atoi days) resources)"
    by (rule submit_each_calls) (rule retention_unit_calls)
  have sl: "Snapshot_exception e \<in># logged (snd ?S)" if "Some e \<in> set (fst ?S)" for e
    using submit_each_captured [OF snapshot_unit_logged that] by simp
  have rl: "Retention_exception e \<in># logged (snd ?R)" if "Some e \<in> set (fst ?R)" for e
    using submit_each_captured [OF retention_unit_logged that] by simp
  show ?thesis
    unfolding s r using sc rc sl rl by (simp add: submit_each_length)
qed

lemma ten_futures:
  "fst (submit_each (process_cluster_snapshot flaky_client demo_snapshot_identifier)
          Snapshot_exception ten_clusters [] empty_world)
   = [None, None, None, Some (ClientError ''Throttling''), None, None, None, None, None, None]"
  by (simp add: ten_clusters_def cluster_def process_cluster_snapshot_def getitem_def
      invoke_def flaky_client_def demo_snapshot_identifier_def empty_world_def
      exception_of_def)

lemma three_futures:
  "fst (submit_each (process_snapshot_retention dec_int accepting_client (Some 7))
          Retention_exception three_auroras [] empty_world)
   = [None, Some (KeyError ''PreferredBackupWindow''), None]"
  by (simp add: three_auroras_def cluster_def aurora_def process_snapshot_retention_def
      set_retention_window_def getitem_def
      invoke_def accepting_client_def empty_world_def exception_of_def)

theorem fan_out_tolerates_failures_witness:
  "Some (ClientError ''Throttling'')
     \<in> set (fst (submit_each (process_cluster_snapshot flaky_client demo_snapshot_identifier)
                    Snapshot_exception ten_clusters [] empty_world))
   \<and> Snapshot_exception (ClientError ''Throttling'')
       \<in># logged (snd (Snapshot_process flaky_client demo_snapshot_identifier
                          ten_clusters empty_world))
   \<and> length (calls (snd (Snapshot_process flaky_client demo_snapshot_identifier
                          ten_clusters empty_world))) = 10
   \<and> Some (KeyError ''PreferredBackupWindow'')
       \<in> set (fst (submit_each (process_snapshot_retention dec_int accepting_client (Some 7))
                      Retention_exception three_auroras [] empty_world))
   \<and> Retention_exception (KeyError ''PreferredBackupWindow'')
       \<in># logged (snd (RetentionWindow_process dec_int accepting_client (Some 7)
                          three_auroras empty_world))
   \<and> calls (snd (RetentionWindow_process dec_int accepting_client (Some 7)
                   three_auroras empty_world))
       = [ModifyDBCluster [(''DBClusterIdentifier'', JStr ''db-1''),
                           (''BackupRetentionPeriod'', JInt 7),
                           (''PreferredBackupWindow'', JStr ''07:00-07:30''),
                           (''PreferredMaintenanceWindow'', JStr ''sun:08:00-sun:08:30'')],
          ModifyDBCluster [(''DBClusterIdentifier'', JStr ''db-3''),
                           (''BackupRetentionPeriod'', JInt 7),
                           (''PreferredBackupWindow'', JStr ''07:00-07:30''),
                           (''PreferredMaintenanceWindow'', JStr ''sun:08:00-sun:08:30'')]]"
proof -
  have m1: "Some (ClientError ''Throttling'')
     \<in> set (fst (submit_each (process_cluster_snapshot flaky_client demo_snapshot_identifier)
                    Snapshot_exception ten_clusters [] empty_world))"
    by (simp add: ten_futures)
  have m2: "Some (KeyError ''PreferredBackupWindow'')
       \<in> set (fst (submit_each (process_snapshot_retention dec_int accepting_client (Some 7))
                      Retention_exception three_auroras [] empty_world))"
    by (simp add: three_futures)
  have reqs: "concat (map (snapshot_requests demo_snapshot_identifier) ten_clusters)
      = map (\<lambda>n. CreateDBClusterSnapshot
                    [(''DBClusterSnapshotIdentifier'', JList [JStr ''Backup'', JStr n]),
                     (''DBClusterIdentifier'', JStr n)])
          [''db-1'', ''db-2'', ''db-3'', ''db-4'', ''db-5'',
           ''db-6'', ''db-7'', ''db-8'', ''db-9'', ''db-10'']"
    by (simp add: ten_clusters_def cluster_def snapshot_requests_def demo_snapshot_identifier_def)
  have reqr: "concat (map (retention_requests dec_int (Some 7)) three_auroras)
      = [ModifyDBCluster [(''DBClusterIdentifier'', JStr ''db-1''),
                           (''BackupRetentionPeriod'', JInt 7),
                           (''PreferredBackupWindow'', JStr ''07:00-07:30''),
                           (''PreferredMaintenanceWindow'', JStr ''sun:08:00-sun:08:30'')],
          ModifyDBCluster [(''DBClusterIdentifier'', JStr ''db-3''),
                           (''BackupRetentionPeriod'', JInt 7),
                           (''PreferredBackupWindow'', JStr ''07:00-07:30''),
                           (''PreferredMaintenanceWindow'', JStr ''sun:08:00-sun:08:30'')]]"
    by (simp add: three_auroras_def cluster_def aurora_def retention_requests_def)
  show ?thesis
    using fan_out_tolerates_failures [of flaky_client demo_snapshot_identifier ten_clusters
        empty_world dec_int "Some 7"]
      fan_out_tolerates_failures [of accepting_client demo_snapshot_identifier three_auroras
        empty_world dec_int "Some 7"] m1 m2
    by (simp add: reqs reqr empty_world_def)
qed

section \<open>Properties of the batches of the bulk snapshot delete\<close>

declare chunks.simps [simp del]

lemma chunks_Nil [simp]: "chunks n [] = []"
  by (simp add: chunks.simps)








lemma snapshot_set_logged: "logged (snd (process_snapshot_set client b w)) = logged w"
  by (induction b arbitrary: w)
     (simp_all add: getitem_def invoke_def split: option.splits prod.splits)







end
